theory Spec2Isabelle
  imports Main
begin

section \<open>Values, errors and the platform\<close>

text \<open>
  The script \<^verbatim>\<open>deploy_step_function_workflow.py\<close> passes its inputs around as keyword
  dictionaries. A value of such a dictionary is \<open>None\<close>, a textual value (\<open>str\<close> or
  \<open>unicode\<close>), or some other object. Of the last kind only two things are ever used:
  the text that \<open>str()\<close> gives for it (in error messages), and whether it can be the
  key of a dictionary lookup (a number can; a list or a dictionary cannot, and looking
  it up raises \<open>TypeError\<close>).
\<close>

datatype pyval = PyNone | PyStr string | PyObj string | PyUnhashable string

type_synonym kwargs = "string \<rightharpoonup> pyval"

fun py_str :: "pyval \<Rightarrow> string" where
  "py_str PyNone = ''None''"
| "py_str (PyStr s) = s"
| "py_str (PyObj r) = r"
| "py_str (PyUnhashable r) = r"

text \<open>Every \<open>raise\<close> of the script is \<open>Exception(message)\<close>; the other errors are the
  ones Python itself raises on a missing key, an unreadable file, unparsable JSON,
  a method missing on a value, or a value of the wrong type.\<close>

datatype error =
    Exception string
  | KeyError string
  | IOError string
  | ValueError
  | AttributeError
  | TypeError

text \<open>\<open>kwargs.get(k, None)\<close> and \<open>kwargs[k]\<close>.\<close>

definition kw_get :: "kwargs \<Rightarrow> string \<Rightarrow> pyval" where
  "kw_get kw k = (case kw k of None \<Rightarrow> PyNone | Some v \<Rightarrow> v)"

definition kw_index :: "kwargs \<Rightarrow> string \<Rightarrow> error + pyval" where
  "kw_index kw k = (case kw k of None \<Rightarrow> Inl (KeyError k) | Some v \<Rightarrow> Inr v)"

text \<open>Parsed JSON, as \<open>json.load\<close> returns it; an object is the list of its items (as
  a dictionary it has each key once).\<close>

datatype json =
    JNull
  | JBool bool
  | JNum int
  | JStr string
  | JArr "json list"
  | JObj "(string \<times> json) list"

record stack_summary =
  SummaryStackName :: string
  SummaryStackStatus :: string

record change =
  LogicalResourceId :: string
  Action :: string

record description =
  Status :: string
  StatusReason :: "string option"
  ExecutionStatus :: string
  Changes :: "change list"

text \<open>The requests of the two mutating calls that carry data.\<close>

record put_request =
  Bucket :: pyval
  Key :: pyval
  Body :: string
  ContentType :: string
  StorageClass :: string

record parameter =
  ParameterKey :: pyval
  ParameterValue :: pyval
  UsePreviousValue :: bool

record create_request =
  StackName :: pyval
  TemplateBody :: string
  Parameters :: "parameter list"
  Capabilities :: "string list"
  Description :: pyval
  ChangeSetName :: string
  ChangeSetType :: string

text \<open>
  What the script reads from outside: the bucket names \<open>list_buckets\<close> returns, the
  local files (path to content), the JSON parser, the pages of \<open>list_stacks\<close> (a page
  token is the index of the page it leads to), the text of the \<open>n\<close>-th \<open>uuid.uuid4()\<close>
  the process draws, the \<open>Id\<close> that \<open>create_change_set\<close> answers with, and the answer of
  the \<open>n\<close>-th call of \<open>describe_change_set\<close>.
\<close>

record env =
  buckets :: "string list"
  files :: "string \<rightharpoonup> string"
  json_load :: "string \<Rightarrow> json option"
  stack_pages :: "stack_summary list list"
  uuid4 :: "nat \<Rightarrow> string"
  created_id :: string
  descriptions :: "nat \<Rightarrow> description"

text \<open>
  What the script does to the outside, in order: the mutating calls, the polls and the
  sleeps between them. \<open>polls\<close> counts the calls of \<open>describe_change_set\<close> so far.
  (The progress messages it prints are left out.)
\<close>

datatype call =
    PutObject put_request
  | CreateChangeSet create_request
  | DescribeChangeSet string
  | Sleep int
  | ExecuteChangeSet string

record state =
  calls :: "call list"
  polls :: nat

definition do_call :: "call \<Rightarrow> state \<Rightarrow> state" where
  "do_call c s = s\<lparr>calls := calls s @ [c]\<rparr>"

text \<open>The requests of the \<open>create_change_set\<close> calls made so far, in order.\<close>

fun create_requests :: "call list \<Rightarrow> create_request list" where
  "create_requests [] = []"
| "create_requests (CreateChangeSet req # cs) = req # create_requests cs"
| "create_requests (_ # cs) = create_requests cs"

text \<open>
  The script draws a uuid in one place only, among the arguments of
  \<open>create_change_set\<close> (line 222), and makes the call with it: the uuids drawn so far
  are as many as the \<open>create_change_set\<close> calls made so far.
\<close>

definition uuids_drawn :: "state \<Rightarrow> nat" where
  "uuids_drawn s = length (create_requests (calls s))"

section \<open>Parameter validator\<close>

text \<open>A post-check receives the parameter's name and its (textual) value.\<close>

type_synonym post_check = "string \<Rightarrow> string \<Rightarrow> error + unit"

text \<open>The third argument of \<open>_check_parameters\<close> (lines 67-77): \<open>None\<close>, one
  function, or a list of functions, which are called in order.\<close>

datatype post_check_fn_list = NoCheck | OneCheck post_check | CheckList "post_check list"

fun run_checks :: "post_check list \<Rightarrow> string \<Rightarrow> string \<Rightarrow> error + unit" where
  "run_checks [] param_name param_value = Inr ()"
| "run_checks (fn # fns) param_name param_value =
     (case fn param_name param_value of
        Inl err \<Rightarrow> Inl err
      | Inr _ \<Rightarrow> run_checks fns param_name param_value)"

definition check_parameters :: "string \<Rightarrow> pyval \<Rightarrow> post_check_fn_list \<Rightarrow> error + unit" where
  "check_parameters param_name param_value post_check_fn_list =
     (case param_value of
        PyNone \<Rightarrow> Inl (Exception (param_name @ '' must not be None''))
      | PyObj _ \<Rightarrow> Inl (Exception (param_name @ '' must be a str or unicode value''))
      | PyUnhashable _ \<Rightarrow>
          Inl (Exception (param_name @ '' must be a str or unicode value''))
      | PyStr v \<Rightarrow>
          (case post_check_fn_list of
             NoCheck \<Rightarrow> Inr ()
           | OneCheck fn \<Rightarrow> fn param_name v
           | CheckList fns \<Rightarrow> run_checks fns param_name v))"

text \<open>A quoted piece of a message: \<open>'{}'\<close>.\<close>

definition quoted :: "string \<Rightarrow> string" where
  "quoted s = [CHR 0x27] @ s @ [CHR 0x27]"

definition check_file_exists :: "env \<Rightarrow> post_check" where
  "check_file_exists e param_name param_value =
     (if param_value \<in> dom (files e) then Inr ()
      else Inl (Exception (''Specified file '' @ quoted param_value @
                           '' does not exist or is not a file'')))"

text \<open>Sequencing: what follows runs only if what came before did not raise.\<close>

definition bindE :: "error + 'a \<Rightarrow> ('a \<Rightarrow> error + 'b) \<Rightarrow> error + 'b" where
  "bindE a f = (case a of Inl err \<Rightarrow> Inl err | Inr x \<Rightarrow> f x)"

definition and_then :: "error + unit \<Rightarrow> (error + 'a) \<Rightarrow> error + 'a" where
  "and_then a b = (case a of Inl err \<Rightarrow> Inl err | Inr _ \<Rightarrow> b)"

section \<open>Artifact publisher: \<open>save_workflow_to_s3\<close>\<close>

fun check_bucket_loop :: "string list \<Rightarrow> string \<Rightarrow> error + unit" where
  "check_bucket_loop [] param_value =
     Inl (Exception (''Specified bucket '' @ quoted param_value @ '' does not exist''))"
| "check_bucket_loop (name # names) param_value =
     (if name = param_value then Inr () else check_bucket_loop names param_value)"

definition check_bucket_exists :: "env \<Rightarrow> post_check" where
  "check_bucket_exists e param_name param_value = check_bucket_loop (buckets e) param_value"

definition check_storage_class :: post_check where
  "check_storage_class param_name param_value =
     (if param_value \<in> set [''STANDARD'', ''STANDARD_IA'', ''ONEZONE_IA''] then Inr ()
      else Inl (Exception (param_name @ '' must be one of [STANDARD|STANDARD_IA|ONEZONE_IA]'')))"

text \<open>The four checks of \<open>save_workflow_to_s3\<close> (lines 115-118), in the order of the
  source. (The test \<open>kwargs is None\<close> before them never holds for a \<open>**kwargs\<close>
  dictionary and is left out, here and in \<open>update_stack\<close>.)\<close>

definition check_save_parameters :: "env \<Rightarrow> kwargs \<Rightarrow> error + unit" where
  "check_save_parameters e kw =
     and_then (check_parameters ''Bucket'' (kw_get kw ''Bucket'') (OneCheck (check_bucket_exists e)))
    (and_then (check_parameters ''Key'' (kw_get kw ''Key'') NoCheck)
    (and_then (check_parameters ''SourceFileName'' (kw_get kw ''SourceFileName'')
                 (OneCheck (check_file_exists e)))
              (check_parameters ''S3StorageClass'' (kw_get kw ''S3StorageClass'')
                 (OneCheck check_storage_class))))"

text \<open>\<open>open(v, "r")\<close> and reading it.\<close>

definition open_read :: "env \<Rightarrow> pyval \<Rightarrow> error + string" where
  "open_read e v =
     (case v of
        PyStr path \<Rightarrow> (case files e path of None \<Rightarrow> Inl (IOError path) | Some c \<Rightarrow> Inr c)
      | _ \<Rightarrow> Inl TypeError)"

text \<open>The arguments of \<open>put_object\<close> (lines 122-127), evaluated in the order they
  are written.\<close>

definition put_object_request :: "env \<Rightarrow> kwargs \<Rightarrow> error + put_request" where
  "put_object_request e kw =
     bindE (kw_index kw ''Bucket'') (\<lambda>b.
     bindE (kw_index kw ''Key'') (\<lambda>k.
     bindE (kw_index kw ''SourceFileName'') (\<lambda>f.
     bindE (open_read e f) (\<lambda>body.
       Inr \<lparr>Bucket = b, Key = k, Body = body,
            ContentType = ''application/json'', StorageClass = ''STANDARD''\<rparr>))))"

definition save_workflow_to_s3 :: "env \<Rightarrow> kwargs \<Rightarrow> state \<Rightarrow> (error + unit) \<times> state" where
  "save_workflow_to_s3 e kw s =
     (case check_save_parameters e kw of
        Inl err \<Rightarrow> (Inl err, s)
      | Inr _ \<Rightarrow>
          (case put_object_request e kw of
             Inl err \<Rightarrow> (Inl err, s)
           | Inr req \<Rightarrow> (Inr (), do_call (PutObject req) s)))"

section \<open>Stack and template precondition checker\<close>

text \<open>
  \<open>list_stacks(StackStatusFilter=..., NextToken=...)\<close>: the page the token leads to
  (the first page without a token), with the stacks whose status is in the filter, and
  the token of the next page when there is one.
\<close>

record stacks_page =
  StackSummaries :: "stack_summary list"
  NextToken :: "nat option"

definition list_stacks :: "env \<Rightarrow> string list \<Rightarrow> nat option \<Rightarrow> stacks_page" where
  "list_stacks e status_filter token =
     (let i = (case token of None \<Rightarrow> 0 | Some t \<Rightarrow> t) in
      \<lparr>StackSummaries =
         (if i < length (stack_pages e)
          then filter (\<lambda>stack. SummaryStackStatus stack \<in> set status_filter) (stack_pages e ! i)
          else []),
       NextToken = (if Suc i < length (stack_pages e) then Some (Suc i) else None)\<rparr>)"

definition stack_not_ready :: "string \<Rightarrow> error" where
  "stack_not_ready param_value =
     Exception (''Specified Stack '' @ quoted param_value @ [CHR 0x27] @
                '' either does not exist or is not ready for update'')"

text \<open>The \<open>while cont\<close> loop (lines 154-165): scan the page; fetch the next one while
  there is a token.\<close>

function stack_loop :: "env \<Rightarrow> string \<Rightarrow> nat option \<Rightarrow> error + unit" where
  "stack_loop e param_value token =
     (let resp = list_stacks e [''CREATE_COMPLETE'', ''UPDATE_COMPLETE''] token in
      if list_ex (\<lambda>stack. SummaryStackName stack = param_value) (StackSummaries resp)
      then Inr ()
      else (case NextToken resp of
              None \<Rightarrow> Inl (stack_not_ready param_value)
            | Some next_token \<Rightarrow> stack_loop e param_value (Some next_token)))"
  by pat_completeness auto
termination
  by (relation "measure (\<lambda>(e, v, token).
        length (stack_pages e) - (case token of None \<Rightarrow> 0 | Some t \<Rightarrow> t))")
     (auto simp: list_stacks_def Let_def split: if_splits option.splits)

declare stack_loop.simps [simp del]

definition check_stack_exists_and_updatable :: "env \<Rightarrow> post_check" where
  "check_stack_exists_and_updatable e param_name param_value = stack_loop e param_value None"

text \<open>\<open>d.get(k, None)\<close> on a parsed JSON value, \<open>x == None\<close>, and \<open>del d[k]\<close>.\<close>

definition dict_get :: "json \<Rightarrow> pyval \<Rightarrow> error + json option" where
  "dict_get d k =
     (case d of
        JObj kvs \<Rightarrow>
          (case k of
             PyStr n \<Rightarrow> Inr (map_of kvs n)
           | PyUnhashable _ \<Rightarrow> Inl TypeError
           | _ \<Rightarrow> Inr None)
      | _ \<Rightarrow> Inl AttributeError)"

definition is_none :: "json option \<Rightarrow> bool" where
  "is_none r = (r = None \<or> r = Some JNull)"

definition dict_del :: "json \<Rightarrow> pyval \<Rightarrow> json" where
  "dict_del d k =
     (case d of
        JObj kvs \<Rightarrow> (case k of PyStr n \<Rightarrow> JObj (filter (\<lambda>kv. fst kv \<noteq> n) kvs) | _ \<Rightarrow> d)
      | _ \<Rightarrow> d)"

definition param_not_present :: "pyval \<Rightarrow> string \<Rightarrow> error" where
  "param_not_present template_param_name param_value =
     Exception (''Parameter '' @ quoted (py_str template_param_name) @
                '' not present in template '' @ quoted param_value)"

definition param_without_default :: "string \<Rightarrow> string \<Rightarrow> error" where
  "param_without_default param_value k =
     Exception (''Additional parameters in template '' @ quoted param_value @
                '' without defaults (e.g. '' @ quoted k @ '')'')"

text \<open>The loop over the two required names (lines 170-174): each must be declared, and
  is then deleted.\<close>

fun check_required :: "string \<Rightarrow> pyval list \<Rightarrow> json \<Rightarrow> error + json" where
  "check_required param_value [] template_parameters = Inr template_parameters"
| "check_required param_value (template_param_name # names) template_parameters =
     bindE (dict_get template_parameters template_param_name) (\<lambda>r.
       if is_none r then Inl (param_not_present template_param_name param_value)
       else check_required param_value names (dict_del template_parameters template_param_name))"

text \<open>The loop over the parameters that are left (lines 176-180), in the order of the
  list: each must have a default.\<close>

fun check_defaults :: "string \<Rightarrow> (string \<times> json) list \<Rightarrow> error + unit" where
  "check_defaults param_value [] = Inr ()"
| "check_defaults param_value ((k, v) # kvs) =
     bindE (dict_get v (PyStr ''Default'')) (\<lambda>r.
       if is_none r then Inl (param_without_default param_value k)
       else check_defaults param_value kvs)"

definition items :: "json \<Rightarrow> error + (string \<times> json) list" where
  "items d = (case d of JObj kvs \<Rightarrow> Inr kvs | _ \<Rightarrow> Inl AttributeError)"

definition check_template_params_exist :: "env \<Rightarrow> kwargs \<Rightarrow> post_check" where
  "check_template_params_exist e kw param_name param_value =
     bindE (open_read e (PyStr param_value)) (\<lambda>text.
     bindE (case json_load e text of None \<Rightarrow> Inl ValueError | Some t \<Rightarrow> Inr t) (\<lambda>template.
     bindE (dict_get template (PyStr ''Parameters'')) (\<lambda>r.
     bindE (kw_index kw ''S3KeyParameterName'') (\<lambda>p1.
     bindE (kw_index kw ''SMResourceParameterName'') (\<lambda>p2.
     bindE (check_required param_value [p1, p2] (case r of None \<Rightarrow> JObj [] | Some tp \<Rightarrow> tp))
       (\<lambda>template_parameters.
     bindE (items template_parameters) (check_defaults param_value)))))))"

section \<open>Change-set orchestrator: \<open>update_stack\<close>\<close>

text \<open>
  \<open>update_stack\<close> (lines 129-259) is one function with three local functions. Its body
  is given in the pieces it runs through, in order: the six checks, the arguments of
  \<open>create_change_set\<close>, the first wait, the check of the change set, the execution with
  the second wait, and the check of the final status.
\<close>

definition describe_change_set :: "env \<Rightarrow> string \<Rightarrow> state \<Rightarrow> description \<times> state" where
  "describe_change_set e change_set_id s =
     (descriptions e (polls s),
      (do_call (DescribeChangeSet change_set_id) s)\<lparr>polls := Suc (polls s)\<rparr>)"

text \<open>
  The \<open>while\<close> loop of \<open>wait_for_change_set\<close> (lines 182-189), on the last answer and
  the state after it. It need not end: a run that polls forever has the value \<open>None\<close>.
\<close>

partial_function (option) wait_loop ::
    "env \<Rightarrow> string \<Rightarrow> int \<Rightarrow> description \<times> state \<Rightarrow> (description \<times> state) option" where
  "wait_loop e change_set_id sleep_time rs =
     (if Status (fst rs) \<notin> set [''CREATE_COMPLETE'', ''FAILED'']
      then wait_loop e change_set_id (sleep_time * 2)
             (describe_change_set e change_set_id (do_call (Sleep sleep_time) (snd rs)))
      else Some rs)"

declare wait_loop.simps [code]

definition wait_for_change_set ::
    "env \<Rightarrow> string \<Rightarrow> state \<Rightarrow> (description \<times> state) option" where
  "wait_for_change_set e change_set_id s =
     wait_loop e change_set_id 2 (describe_change_set e change_set_id s)"

text \<open>The six checks of \<open>update_stack\<close> (lines 195-200), in the order of the source.\<close>

definition check_update_parameters :: "env \<Rightarrow> kwargs \<Rightarrow> error + unit" where
  "check_update_parameters e kw =
     and_then (check_parameters ''StackName'' (kw_get kw ''StackName'')
                 (OneCheck (check_stack_exists_and_updatable e)))
    (and_then (check_parameters ''TemplateFileName'' (kw_get kw ''TemplateFileName'')
                 (CheckList [check_file_exists e, check_template_params_exist e kw]))
    (and_then (check_parameters ''S3KeyParameterName'' (kw_get kw ''S3KeyParameterName'') NoCheck)
    (and_then (check_parameters ''S3Key'' (kw_get kw ''S3Key'') NoCheck)
    (and_then (check_parameters ''SMResourceParameterName''
                 (kw_get kw ''SMResourceParameterName'') NoCheck)
              (check_parameters ''SMResource'' (kw_get kw ''SMResource'') NoCheck)))))"

text \<open>\<open>'A'+''.join(str(uuid.uuid4()).split("-"))\<close>, on the text of the uuid drawn.\<close>

definition change_set_name :: "string \<Rightarrow> string" where
  "change_set_name uuid = ''A'' @ filter (\<lambda>c. c \<noteq> CHR ''-'') uuid"

text \<open>The arguments of \<open>create_change_set\<close> (lines 205-223), evaluated in the order
  they are written.\<close>

definition create_change_set_request ::
    "env \<Rightarrow> kwargs \<Rightarrow> state \<Rightarrow> error + create_request" where
  "create_change_set_request e kw s =
     bindE (kw_index kw ''StackName'') (\<lambda>stack_name.
     bindE (kw_index kw ''TemplateFileName'') (\<lambda>template_file_name.
     bindE (open_read e template_file_name) (\<lambda>template_body.
     bindE (kw_index kw ''S3KeyParameterName'') (\<lambda>k1.
     bindE (kw_index kw ''S3Key'') (\<lambda>v1.
     bindE (kw_index kw ''SMResourceParameterName'') (\<lambda>k2.
     bindE (kw_index kw ''SMResource'') (\<lambda>v2.
     bindE (kw_index kw ''Description'') (\<lambda>d.
       Inr \<lparr>StackName = stack_name,
            TemplateBody = template_body,
            Parameters =
              [\<lparr>ParameterKey = k1, ParameterValue = v1, UsePreviousValue = False\<rparr>,
               \<lparr>ParameterKey = k2, ParameterValue = v2, UsePreviousValue = False\<rparr>],
            Capabilities = [''CAPABILITY_IAM'', ''CAPABILITY_NAMED_IAM''],
            Description = d,
            ChangeSetName = change_set_name (uuid4 e (uuids_drawn s)),
            ChangeSetType = ''UPDATE''\<rparr>))))))))"

definition creation_failed :: "string \<Rightarrow> string \<Rightarrow> error" where
  "creation_failed change_set_id reason =
     Exception (''ChangeSet '' @ quoted change_set_id @ '' creation FAILED - '' @ quoted reason)"

definition does_not_modify :: "string \<Rightarrow> pyval \<Rightarrow> error" where
  "does_not_modify change_set_id sm_resource =
     Exception (''ChangeSet '' @ quoted change_set_id @ '' does not modify StateMachine '' @
                quoted (py_str sm_resource) @ '' - check workflow file'')"

definition execution_failed :: "string \<Rightarrow> string \<Rightarrow> error" where
  "execution_failed change_set_id reason =
     Exception (''ChangeSet '' @ quoted change_set_id @ '' execution FAILED - '' @ quoted reason)"

definition execution_status_is :: "string \<Rightarrow> string \<Rightarrow> error" where
  "execution_status_is change_set_id execution_status =
     Exception (''ChangeSet '' @ quoted change_set_id @ '' execution status is '' @
                quoted execution_status)"

text \<open>\<open>resp["StatusReason"]\<close>: the platform gives a reason only when it has one.\<close>

definition status_reason :: "description \<Rightarrow> error + string" where
  "status_reason resp =
     (case StatusReason resp of None \<Rightarrow> Inl (KeyError ''StatusReason'') | Some r \<Rightarrow> Inr r)"

text \<open>The \<open>for chg in resp['Changes']\<close> loop with its \<open>break\<close>.\<close>

fun found_required_change :: "change list \<Rightarrow> pyval \<Rightarrow> bool" where
  "found_required_change [] sm_resource = False"
| "found_required_change (chg # chgs) sm_resource =
     (if PyStr (LogicalResourceId chg) = sm_resource then True
      else found_required_change chgs sm_resource)"

text \<open>
  The check between the first wait and the execution (lines 233-244, the spec's
  \<open>validateTargetedChange\<close>): the creation must not have failed, and one of the proposed
  changes must be of the expected resource.
\<close>

definition validate_targeted_change :: "string \<Rightarrow> description \<Rightarrow> kwargs \<Rightarrow> error + unit" where
  "validate_targeted_change change_set_id resp kw =
     (if Status resp = ''FAILED''
      then bindE (status_reason resp) (\<lambda>reason. Inl (creation_failed change_set_id reason))
      else bindE (kw_index kw ''SMResource'') (\<lambda>sm_resource.
             if \<not> found_required_change (Changes resp) sm_resource
             then Inl (does_not_modify change_set_id sm_resource)
             else Inr ()))"

text \<open>The check after the second wait (lines 253-257).\<close>

definition final_status_check :: "string \<Rightarrow> description \<Rightarrow> error + unit" where
  "final_status_check change_set_id resp =
     (if Status resp = ''FAILED''
      then bindE (status_reason resp) (\<lambda>reason. Inl (execution_failed change_set_id reason))
      else if ExecutionStatus resp \<noteq> ''AVAILABLE''
      then Inl (execution_status_is change_set_id (ExecutionStatus resp))
      else Inr ())"

text \<open>From \<open>execute_change_set\<close> to the end of \<open>update_stack\<close> (lines 248-257).\<close>

definition execute_and_wait ::
    "env \<Rightarrow> string \<Rightarrow> state \<Rightarrow> ((error + unit) \<times> state) option" where
  "execute_and_wait e change_set_id s =
     (case wait_for_change_set e change_set_id (do_call (ExecuteChangeSet change_set_id) s) of
        None \<Rightarrow> None
      | Some (resp, s') \<Rightarrow> Some (final_status_check change_set_id resp, s'))"

definition update_stack :: "env \<Rightarrow> kwargs \<Rightarrow> state \<Rightarrow> ((error + unit) \<times> state) option" where
  "update_stack e kw s =
     (case check_update_parameters e kw of
        Inl err \<Rightarrow> Some (Inl err, s)
      | Inr _ \<Rightarrow>
         (case create_change_set_request e kw s of
            Inl err \<Rightarrow> Some (Inl err, s)
          | Inr req \<Rightarrow>
             (case wait_for_change_set e (created_id e) (do_call (CreateChangeSet req) s) of
                None \<Rightarrow> None
              | Some (resp, s') \<Rightarrow>
                 (case validate_targeted_change (created_id e) resp kw of
                    Inl err \<Rightarrow> Some (Inl err, s')
                  | Inr _ \<Rightarrow> execute_and_wait e (created_id e) s'))))"

section \<open>Deployment driver: \<open>update_workflow\<close>\<close>

text \<open>\<open>update_workflow\<close> (lines 261-272): \<open>save_workflow_to_s3\<close> on the four arguments it
  takes, then \<open>update_stack\<close> on the six it takes and the location of the object.\<close>

definition save_kwargs :: "kwargs \<Rightarrow> kwargs" where
  "save_kwargs kw = kw |` set [''Bucket'', ''Key'', ''SourceFileName'', ''S3StorageClass'']"

text \<open>\<open>"s3://{}/{}".format(kwargs["Bucket"], kwargs["Key"])\<close>\<close>

definition s3_location :: "kwargs \<Rightarrow> error + pyval" where
  "s3_location kw =
     bindE (kw_index kw ''Bucket'') (\<lambda>b.
     bindE (kw_index kw ''Key'') (\<lambda>k.
       Inr (PyStr (''s3://'' @ py_str b @ ''/'' @ py_str k))))"

definition update_kwargs :: "kwargs \<Rightarrow> pyval \<Rightarrow> kwargs" where
  "update_kwargs kw s3_key =
     (kw |` set [''StackName'', ''Description'', ''TemplateFileName'', ''S3KeyParameterName'',
                 ''SMResourceParameterName'', ''SMResource''])(''S3Key'' \<mapsto> s3_key)"

definition update_workflow :: "env \<Rightarrow> kwargs \<Rightarrow> state \<Rightarrow> ((error + unit) \<times> state) option" where
  "update_workflow e kw s =
     (case save_workflow_to_s3 e (save_kwargs kw) s of
        (Inl err, s') \<Rightarrow> Some (Inl err, s')
      | (Inr _, s') \<Rightarrow>
         (case s3_location kw of
            Inl err \<Rightarrow> Some (Inl err, s')
          | Inr s3_key \<Rightarrow> update_stack e (update_kwargs kw s3_key) s'))"

section \<open>Observing a run\<close>

text \<open>The calls that change something on the platform.\<close>

fun mutating :: "call \<Rightarrow> bool" where
  "mutating (PutObject _) = True"
| "mutating (CreateChangeSet _) = True"
| "mutating (ExecuteChangeSet _) = True"
| "mutating (DescribeChangeSet _) = False"
| "mutating (Sleep _) = False"

text \<open>The calls of \<open>k\<close> further rounds of the polling loop, the first sleeping for \<open>t\<close>.\<close>

fun poll_calls :: "string \<Rightarrow> int \<Rightarrow> nat \<Rightarrow> call list" where
  "poll_calls change_set_id t 0 = []"
| "poll_calls change_set_id t (Suc k) =
     Sleep t # DescribeChangeSet change_set_id # poll_calls change_set_id (t * 2) k"

text \<open>The stack \<open>v\<close> is on page \<open>j\<close> of the listing, in one of the two ready statuses.\<close>

definition listed :: "env \<Rightarrow> string \<Rightarrow> nat \<Rightarrow> bool" where
  "listed e v j =
     (j < length (stack_pages e) \<and>
      (\<exists>stack \<in> set (stack_pages e ! j). SummaryStackName stack = v \<and>
         SummaryStackStatus stack \<in> {''CREATE_COMPLETE'', ''UPDATE_COMPLETE''}))"

section \<open>A deployment to run the model on\<close>

text \<open>
  A template with the two required parameters and a third one that has a default; a
  stack listing of two pages with the target stack on the second; a change set that is
  still being created at the first poll and complete from the second on; a source of
  uuids that never gives the same text twice.
\<close>

definition demo_template :: json where
  "demo_template =
     JObj [(''Parameters'',
            JObj [(''S3Key'', JObj [(''Type'', JStr ''String'')]),
                  (''SMResource'', JObj [(''Type'', JStr ''String'')]),
                  (''Prefix'', JObj [(''Type'', JStr ''String''), (''Default'', JStr ''sm'')])])]"

definition in_progress :: description where
  "in_progress =
     \<lparr>Status = ''CREATE_IN_PROGRESS'', StatusReason = None,
      ExecutionStatus = ''UNAVAILABLE'', Changes = []\<rparr>"

definition complete :: description where
  "complete =
     \<lparr>Status = ''CREATE_COMPLETE'', StatusReason = None,
      ExecutionStatus = ''AVAILABLE'',
      Changes = [\<lparr>LogicalResourceId = ''MyRole'', Action = ''Modify''\<rparr>,
                 \<lparr>LogicalResourceId = ''MyStateMachine'', Action = ''Modify''\<rparr>]\<rparr>"

definition demo_env :: env where
  "demo_env =
     \<lparr>buckets = [''logs'', ''workflows''],
      files = [''hello.json'' \<mapsto> ''workflow'', ''sm.cform'' \<mapsto> ''template''],
      json_load = (\<lambda>text. if text = ''template'' then Some demo_template else None),
      stack_pages =
        [[\<lparr>SummaryStackName = ''macro'', SummaryStackStatus = ''CREATE_COMPLETE''\<rparr>],
         [\<lparr>SummaryStackName = ''sm-stack'', SummaryStackStatus = ''UPDATE_COMPLETE''\<rparr>]],
      uuid4 = (\<lambda>n. ''0f8fad5b-d9cb-469f-a165-70867728950e'' @ replicate n (CHR ''0'')),
      created_id = ''cs-1'',
      descriptions = (\<lambda>n. if n = 0 then in_progress else complete)\<rparr>"

definition demo_kwargs :: kwargs where
  "demo_kwargs =
     [''Bucket'' \<mapsto> PyStr ''workflows'',
      ''Key'' \<mapsto> PyStr ''hello.json'',
      ''SourceFileName'' \<mapsto> PyStr ''hello.json'',
      ''S3StorageClass'' \<mapsto> PyStr ''STANDARD_IA'',
      ''StackName'' \<mapsto> PyStr ''sm-stack'',
      ''Description'' \<mapsto> PyStr ''commit 1'',
      ''TemplateFileName'' \<mapsto> PyStr ''sm.cform'',
      ''S3KeyParameterName'' \<mapsto> PyStr ''S3Key'',
      ''SMResourceParameterName'' \<mapsto> PyStr ''SMResource'',
      ''SMResource'' \<mapsto> PyStr ''MyStateMachine'']"

definition start :: state where
  "start = \<lparr>calls = [], polls = 0\<rparr>"

text \<open>The same platform, with a change set that takes three more polls.\<close>

definition slow_env :: env where
  "slow_env = demo_env\<lparr>descriptions := (\<lambda>n. if n < 3 then in_progress else complete)\<rparr>"

text \<open>The keyword arguments \<open>update_workflow\<close> passes to \<open>update_stack\<close> in the deployment
  above, and the request \<open>update_stack\<close> makes of them.\<close>

definition demo_update_kwargs :: kwargs where
  "demo_update_kwargs = update_kwargs demo_kwargs (PyStr ''s3://workflows/hello.json'')"

definition demo_request :: create_request where
  "demo_request =
     \<lparr>StackName = PyStr ''sm-stack'',
      TemplateBody = ''template'',
      Parameters =
        [\<lparr>ParameterKey = PyStr ''S3Key'', ParameterValue = PyStr ''s3://workflows/hello.json'',
          UsePreviousValue = False\<rparr>,
         \<lparr>ParameterKey = PyStr ''SMResource'', ParameterValue = PyStr ''MyStateMachine'',
          UsePreviousValue = False\<rparr>],
      Capabilities = [''CAPABILITY_IAM'', ''CAPABILITY_NAMED_IAM''],
      Description = PyStr ''commit 1'',
      ChangeSetName = ''A0f8fad5bd9cb469fa16570867728950e'',
      ChangeSetType = ''UPDATE''\<rparr>"

text \<open>The same platform, with a change set that proposes no change at all.\<close>

definition unchanged :: description where
  "unchanged = complete\<lparr>Changes := []\<rparr>"

definition unchanged_env :: env where
  "unchanged_env = demo_env\<lparr>descriptions := (\<lambda>n. unchanged)\<rparr>"

text \<open>The same platform, with an execution that fails, and with a creation that fails.\<close>

definition failed :: description where
  "failed = \<lparr>Status = ''FAILED'', StatusReason = Some ''no permission'',
             ExecutionStatus = ''UNAVAILABLE'', Changes = []\<rparr>"

definition failing_env :: env where
  "failing_env = demo_env\<lparr>descriptions := (\<lambda>n. if n = 0 then complete else failed)\<rparr>"

definition rejected_env :: env where
  "rejected_env = demo_env\<lparr>descriptions := (\<lambda>n. failed)\<rparr>"













section \<open>Facts about the model\<close>

lemmas model_defs =
  save_workflow_to_s3_def check_save_parameters_def put_object_request_def
  save_kwargs_def and_then_def bindE_def
  check_parameters_def kw_get_def kw_index_def check_bucket_exists_def
  check_file_exists_def check_storage_class_def open_read_def do_call_def restrict_map_def
  update_workflow_def update_stack_def update_kwargs_def s3_location_def
  check_update_parameters_def check_stack_exists_and_updatable_def
  check_template_params_exist_def dict_get_def is_none_def dict_del_def items_def
  create_change_set_request_def change_set_name_def uuids_drawn_def
  wait_for_change_set_def
  describe_change_set_def validate_targeted_change_def final_status_check_def
  execute_and_wait_def status_reason_def list_stacks_def Let_def

lemmas demo_defs =
  demo_kwargs_def demo_env_def slow_env_def start_def demo_template_def in_progress_def
  complete_def

subsection \<open>The polling loop\<close>

lemma wait_loop_mutating:
  assumes "wait_loop e cid t rs = Some y"
  shows "filter mutating (calls (snd y)) = filter mutating (calls (snd rs))"
proof (rule wait_loop.raw_induct
    [where P = "\<lambda>e cid t rs y.
       filter mutating (calls (snd y)) = filter mutating (calls (snd rs))",
      OF _ assms])
  fix wl e cid t rs y
  assume IH: "\<And>e cid t rs y. wl e cid t rs = Some y \<Longrightarrow>
      filter mutating (calls (snd y)) = filter mutating (calls (snd rs))"
    and step: "(if Status (fst rs) \<notin> set [''CREATE_COMPLETE'', ''FAILED'']
      then wl e cid (t * 2) (describe_change_set e cid (do_call (Sleep t) (snd rs)))
      else Some rs) = Some y"
  show "filter mutating (calls (snd y)) = filter mutating (calls (snd rs))"
  proof (cases "Status (fst rs) \<notin> set [''CREATE_COMPLETE'', ''FAILED'']")
    case True
    with step
    have "wl e cid (t * 2) (describe_change_set e cid (do_call (Sleep t) (snd rs))) = Some y"
      by simp
    from IH[OF this] show ?thesis
      by (simp add: describe_change_set_def do_call_def)
  next
    case False
    with step have "y = rs" by (auto split: if_splits)
    then show ?thesis by simp
  qed
qed

lemma wait_for_change_set_mutating:
  "wait_for_change_set e cid s = Some (resp, s') \<Longrightarrow>
     filter mutating (calls s') = filter mutating (calls s)"
  using wait_loop_mutating[of e cid 2 "describe_change_set e cid s" "(resp, s')"]
  by (simp add: wait_for_change_set_def describe_change_set_def do_call_def)

lemma wait_loop_first_terminal:
  "\<forall>i<k. Status (descriptions e (polls s + i)) \<notin> {''CREATE_COMPLETE'', ''FAILED''} \<Longrightarrow>
   Status (descriptions e (polls s + k)) \<in> {''CREATE_COMPLETE'', ''FAILED''} \<Longrightarrow>
   wait_loop e cid t (descriptions e (polls s), s\<lparr>polls := Suc (polls s)\<rparr>) =
     Some (descriptions e (polls s + k),
           s\<lparr>polls := Suc (polls s + k), calls := calls s @ poll_calls cid t k\<rparr>)"
proof (induction k arbitrary: s t)
  case 0
  then show ?case by (subst wait_loop.simps) simp
next
  case (Suc k)
  let ?s = "(do_call (DescribeChangeSet cid) (do_call (Sleep t) s))\<lparr>polls := Suc (polls s)\<rparr>"
  from Suc.prems(1)
  have nt: "Status (descriptions e (polls s)) \<notin> {''CREATE_COMPLETE'', ''FAILED''}"
    by force
  have a: "\<forall>i<k. Status (descriptions e (polls ?s + i)) \<notin> {''CREATE_COMPLETE'', ''FAILED''}"
    using Suc.prems(1) by (auto simp: do_call_def)
  have b: "Status (descriptions e (polls ?s + k)) \<in> {''CREATE_COMPLETE'', ''FAILED''}"
    using Suc.prems(2) by (simp add: do_call_def)
  from Suc.IH[OF a b, of "t * 2"] nt show ?case
    by (subst wait_loop.simps) (simp add: describe_change_set_def do_call_def)
qed

lemma poll_calls_concat:
  "poll_calls cid t k = concat (map (\<lambda>i. [Sleep (t * 2 ^ i), DescribeChangeSet cid]) [0..<k])"
proof (induction k arbitrary: t)
  case 0
  then show ?case by simp
next
  case (Suc k)
  have "[0..<Suc k] = 0 # [Suc 0..<Suc k]"
    by (rule upt_conv_Cons) simp
  also have "[Suc 0..<Suc k] = map Suc [0..<k]"
    by (simp only: map_Suc_upt)
  finally have "[0..<Suc k] = 0 # map Suc [0..<k]" .
  then show ?case
    by (simp add: Suc.IH comp_def mult.assoc del: upt_Suc)
qed

subsection \<open>The stack listing\<close>

lemma stack_loop_from:
  "stack_loop e v token =
     (if \<exists>j \<ge> (case token of None \<Rightarrow> 0 | Some t \<Rightarrow> t). listed e v j
      then Inr () else Inl (stack_not_ready v))"
proof (induction e v token rule: stack_loop.induct)
  case (1 e v token)
  let ?i = "case token of None \<Rightarrow> 0 | Some t \<Rightarrow> t"
  let ?resp = "list_stacks e [''CREATE_COMPLETE'', ''UPDATE_COMPLETE''] token"
  have here: "list_ex (\<lambda>stack. SummaryStackName stack = v) (StackSummaries ?resp) = listed e v ?i"
    by (auto simp: list_stacks_def listed_def list_ex_iff Let_def)
  show ?case
  proof (cases "listed e v ?i")
    case True
    then have "\<exists>j \<ge> ?i. listed e v j" by blast
    with True here show ?thesis
      by (subst stack_loop.simps) (simp add: Let_def)
  next
    case False
    show ?thesis
    proof (cases "Suc ?i < length (stack_pages e)")
      case True
      then have nt: "NextToken ?resp = Some (Suc ?i)"
        by (simp add: list_stacks_def Let_def)
      have "(\<exists>j \<ge> ?i. listed e v j) = (\<exists>j \<ge> Suc ?i. listed e v j)"
      proof
        assume "\<exists>j \<ge> ?i. listed e v j"
        then obtain j where j: "?i \<le> j" "listed e v j" by blast
        with False have "j \<noteq> ?i" by auto
        with j(1) have "Suc ?i \<le> j" by simp
        with j(2) show "\<exists>j \<ge> Suc ?i. listed e v j" by blast
      next
        assume "\<exists>j \<ge> Suc ?i. listed e v j"
        then obtain j where "Suc ?i \<le> j" "listed e v j" by blast
        then have "?i \<le> j \<and> listed e v j" by simp
        then show "\<exists>j \<ge> ?i. listed e v j" by blast
      qed
      moreover have "stack_loop e v (Some (Suc ?i)) =
          (if \<exists>j \<ge> Suc ?i. listed e v j then Inr () else Inl (stack_not_ready v))"
        using "1.IH"[of ?resp "Suc ?i"] False here nt by simp
      ultimately show ?thesis
        using False here nt by (subst stack_loop.simps) (simp add: Let_def)
    next
      case no_next: False
      then have nt: "NextToken ?resp = None"
        by (simp add: list_stacks_def Let_def)
      have "\<not> (\<exists>j \<ge> ?i. listed e v j)"
      proof
        assume "\<exists>j \<ge> ?i. listed e v j"
        then obtain j where j: "?i \<le> j" "listed e v j" by blast
        from j(2) have "j < length (stack_pages e)" by (simp add: listed_def)
        with no_next j(1) have "j = ?i" by simp
        with j(2) False show False by simp
      qed
      then show ?thesis
        using False here nt by (subst stack_loop.simps) (simp add: Let_def)
    qed
  qed
qed

lemma listed_iff:
  "(\<exists>j. listed e v j) =
     (\<exists>page \<in> set (stack_pages e). \<exists>stack \<in> set page.
        SummaryStackName stack = v \<and>
        SummaryStackStatus stack \<in> {''CREATE_COMPLETE'', ''UPDATE_COMPLETE''})"
proof
  assume "\<exists>j. listed e v j"
  then obtain j where j: "listed e v j" ..
  then have "stack_pages e ! j \<in> set (stack_pages e)"
    by (simp add: listed_def)
  with j show "\<exists>page \<in> set (stack_pages e). \<exists>stack \<in> set page.
        SummaryStackName stack = v \<and>
        SummaryStackStatus stack \<in> {''CREATE_COMPLETE'', ''UPDATE_COMPLETE''}"
    unfolding listed_def by blast
next
  assume "\<exists>page \<in> set (stack_pages e). \<exists>stack \<in> set page.
        SummaryStackName stack = v \<and>
        SummaryStackStatus stack \<in> {''CREATE_COMPLETE'', ''UPDATE_COMPLETE''}"
  then obtain page where page: "page \<in> set (stack_pages e)"
      "\<exists>stack \<in> set page. SummaryStackName stack = v \<and>
         SummaryStackStatus stack \<in> {''CREATE_COMPLETE'', ''UPDATE_COMPLETE''}"
    by blast
  from page(1) obtain j where "j < length (stack_pages e)" "stack_pages e ! j = page"
    by (auto simp: in_set_conv_nth)
  with page(2) have "listed e v j"
    unfolding listed_def by blast
  then show "\<exists>j. listed e v j" ..
qed

lemma stack_check_absent:
  assumes "\<not> (\<exists>page \<in> set (stack_pages e). \<exists>stack \<in> set page.
             SummaryStackName stack = v \<and>
             SummaryStackStatus stack \<in> {''CREATE_COMPLETE'', ''UPDATE_COMPLETE''})"
  shows "check_stack_exists_and_updatable e param_name v = Inl (stack_not_ready v)"
proof -
  from assms have "\<not> (\<exists>j. listed e v j)"
    unfolding listed_iff .
  then show ?thesis
    by (simp add: check_stack_exists_and_updatable_def stack_loop_from)
qed

subsection \<open>The checks\<close>

lemma and_then_Inr: "and_then a b = Inr x \<longleftrightarrow> a = Inr () \<and> b = Inr x"
  by (cases a) (auto simp: and_then_def)

lemma and_then_Inl: "and_then (Inl err) b = Inl err"
  by (simp add: and_then_def)

lemma check_parameters_Inr:
  "check_parameters n (kw_get kw k) pc = Inr () \<Longrightarrow> \<exists>x. kw k = Some (PyStr x)"
  by (auto simp: check_parameters_def kw_get_def split: pyval.splits option.splits)

lemma check_parameters_post:
  "check_parameters n (kw_get kw k) (OneCheck f) = Inr () \<Longrightarrow> kw k = Some (PyStr x) \<Longrightarrow>
     f n x = Inr ()"
  by (simp add: check_parameters_def kw_get_def)

lemma check_save_parameters_ok:
  assumes "check_save_parameters e kw = Inr ()"
  shows "\<exists>b k f c body. kw ''Bucket'' = Some (PyStr b) \<and> kw ''Key'' = Some (PyStr k) \<and>
           kw ''SourceFileName'' = Some (PyStr f) \<and> files e f = Some body \<and>
           kw ''S3StorageClass'' = Some (PyStr c)"
proof -
  from assms have
    1: "check_parameters ''Bucket'' (kw_get kw ''Bucket'')
          (OneCheck (check_bucket_exists e)) = Inr ()" and
    2: "check_parameters ''Key'' (kw_get kw ''Key'') NoCheck = Inr ()" and
    3: "check_parameters ''SourceFileName'' (kw_get kw ''SourceFileName'')
          (OneCheck (check_file_exists e)) = Inr ()" and
    4: "check_parameters ''S3StorageClass'' (kw_get kw ''S3StorageClass'')
          (OneCheck check_storage_class) = Inr ()"
    by (simp_all add: check_save_parameters_def and_then_Inr)
  from check_parameters_Inr[OF 1] obtain b where b: "kw ''Bucket'' = Some (PyStr b)" ..
  from check_parameters_Inr[OF 2] obtain k where k: "kw ''Key'' = Some (PyStr k)" ..
  from check_parameters_Inr[OF 3] obtain f where f: "kw ''SourceFileName'' = Some (PyStr f)" ..
  from check_parameters_Inr[OF 4] obtain c where c: "kw ''S3StorageClass'' = Some (PyStr c)" ..
  from check_parameters_post[OF 3 f] obtain body where "files e f = Some body"
    by (auto simp: check_file_exists_def split: if_splits)
  with b k f c show ?thesis by blast
qed

text \<open>What \<open>save_workflow_to_s3\<close> can do: raise and leave the platform alone, or put
  the file's content once.\<close>

lemma save_workflow_to_s3_cases:
  "(\<exists>err. save_workflow_to_s3 e kw s = (Inl err, s)) \<or>
   (\<exists>b k f body. kw ''Bucket'' = Some (PyStr b) \<and> kw ''Key'' = Some (PyStr k) \<and>
      kw ''SourceFileName'' = Some (PyStr f) \<and> files e f = Some body \<and>
      save_workflow_to_s3 e kw s =
        (Inr (), do_call (PutObject \<lparr>Bucket = PyStr b, Key = PyStr k, Body = body,
                    ContentType = ''application/json'', StorageClass = ''STANDARD''\<rparr>) s))"
proof (cases "check_save_parameters e kw")
  case (Inl err)
  then show ?thesis by (simp add: save_workflow_to_s3_def)
next
  case (Inr u)
  then have "check_save_parameters e kw = Inr ()" by simp
  from check_save_parameters_ok[OF this] obtain b k f c body where
    "kw ''Bucket'' = Some (PyStr b)" "kw ''Key'' = Some (PyStr k)"
    "kw ''SourceFileName'' = Some (PyStr f)" "files e f = Some body"
    by blast
  with Inr show ?thesis
    by (simp add: save_workflow_to_s3_def put_object_request_def kw_index_def bindE_def
        open_read_def)
qed

lemma save_kwargs_apply:
  "k \<in> set [''Bucket'', ''Key'', ''SourceFileName'', ''S3StorageClass''] \<Longrightarrow>
     save_kwargs kw k = kw k"
  by (simp add: save_kwargs_def restrict_map_def)

lemma update_kwargs_apply:
  "k \<in> set [''StackName'', ''Description'', ''TemplateFileName'', ''S3KeyParameterName'',
            ''SMResourceParameterName'', ''SMResource''] \<Longrightarrow>
     update_kwargs kw loc k = kw k"
  by (auto simp: update_kwargs_def restrict_map_def)


text \<open>What the six checks of \<open>update_stack\<close> establish.\<close>

lemma check_update_parameters_ok:
  assumes "check_update_parameters e kw = Inr ()"
  shows "\<exists>sn tf p1 v1 p2 v2.
           kw ''StackName'' = Some (PyStr sn) \<and>
           check_stack_exists_and_updatable e ''StackName'' sn = Inr () \<and>
           kw ''TemplateFileName'' = Some (PyStr tf) \<and>
           run_checks [check_file_exists e, check_template_params_exist e kw]
             ''TemplateFileName'' tf = Inr () \<and>
           kw ''S3KeyParameterName'' = Some (PyStr p1) \<and>
           kw ''S3Key'' = Some (PyStr v1) \<and>
           kw ''SMResourceParameterName'' = Some (PyStr p2) \<and>
           kw ''SMResource'' = Some (PyStr v2)"
proof -
  from assms have
    1: "check_parameters ''StackName'' (kw_get kw ''StackName'')
          (OneCheck (check_stack_exists_and_updatable e)) = Inr ()" and
    2: "check_parameters ''TemplateFileName'' (kw_get kw ''TemplateFileName'')
          (CheckList [check_file_exists e, check_template_params_exist e kw]) = Inr ()" and
    3: "check_parameters ''S3KeyParameterName'' (kw_get kw ''S3KeyParameterName'') NoCheck
          = Inr ()" and
    4: "check_parameters ''S3Key'' (kw_get kw ''S3Key'') NoCheck = Inr ()" and
    5: "check_parameters ''SMResourceParameterName'' (kw_get kw ''SMResourceParameterName'')
          NoCheck = Inr ()" and
    6: "check_parameters ''SMResource'' (kw_get kw ''SMResource'') NoCheck = Inr ()"
    by (simp_all add: check_update_parameters_def and_then_Inr)
  from check_parameters_Inr[OF 1] obtain sn where sn: "kw ''StackName'' = Some (PyStr sn)" ..
  from check_parameters_Inr[OF 2] obtain tf where
    tf: "kw ''TemplateFileName'' = Some (PyStr tf)" ..
  from check_parameters_Inr[OF 3] obtain p1 where
    p1: "kw ''S3KeyParameterName'' = Some (PyStr p1)" ..
  from check_parameters_Inr[OF 4] obtain v1 where v1: "kw ''S3Key'' = Some (PyStr v1)" ..
  from check_parameters_Inr[OF 5] obtain p2 where
    p2: "kw ''SMResourceParameterName'' = Some (PyStr p2)" ..
  from check_parameters_Inr[OF 6] obtain v2 where v2: "kw ''SMResource'' = Some (PyStr v2)" ..
  from 2 tf have "run_checks [check_file_exists e, check_template_params_exist e kw]
             ''TemplateFileName'' tf = Inr ()"
    by (simp add: check_parameters_def kw_get_def)
  with check_parameters_post[OF 1 sn] sn tf p1 v1 p2 v2 show ?thesis by blast
qed

lemma check_update_parameters_stack:
  "kw ''StackName'' = Some (PyStr sn) \<Longrightarrow>
   check_stack_exists_and_updatable e ''StackName'' sn = Inl err \<Longrightarrow>
   check_update_parameters e kw = Inl err"
  by (simp add: check_update_parameters_def check_parameters_def kw_get_def and_then_def)

subsection \<open>The orchestrator\<close>

lemma found_required_change_iff:
  "found_required_change chgs r = (\<exists>chg \<in> set chgs. PyStr (LogicalResourceId chg) = r)"
  by (induction chgs) auto




lemma check_update_parameters_file:
  assumes "check_update_parameters e kw = Inr ()"
    and "kw ''TemplateFileName'' = Some (PyStr tf)"
  shows "\<exists>body. files e tf = Some body"
proof -
  from check_update_parameters_ok[OF assms(1)] assms(2)
  have "run_checks [check_file_exists e, check_template_params_exist e kw]
          ''TemplateFileName'' tf = Inr ()"
    by auto
  then show ?thesis
    by (auto simp: check_file_exists_def split: if_splits sum.splits)
qed

text \<open>After the six checks the request is the one built from the arguments, or a
  \<open>KeyError\<close> for the description.\<close>

lemma create_change_set_request_checked:
  assumes "check_update_parameters e kw = Inr ()"
  shows "\<exists>tf body. kw ''TemplateFileName'' = Some (PyStr tf) \<and> files e tf = Some body \<and>
     create_change_set_request e kw s =
       (case kw ''Description'' of
          None \<Rightarrow> Inl (KeyError ''Description'')
        | Some d \<Rightarrow>
            Inr \<lparr>StackName = kw_get kw ''StackName'',
                 TemplateBody = body,
                 Parameters =
                   [\<lparr>ParameterKey = kw_get kw ''S3KeyParameterName'',
                     ParameterValue = kw_get kw ''S3Key'', UsePreviousValue = False\<rparr>,
                    \<lparr>ParameterKey = kw_get kw ''SMResourceParameterName'',
                     ParameterValue = kw_get kw ''SMResource'', UsePreviousValue = False\<rparr>],
                 Capabilities = [''CAPABILITY_IAM'', ''CAPABILITY_NAMED_IAM''],
                 Description = d,
                 ChangeSetName =
                   ''A'' @ filter (\<lambda>c. c \<noteq> CHR ''-'') (uuid4 e (uuids_drawn s)),
                 ChangeSetType = ''UPDATE''\<rparr>)"
proof -
  from check_update_parameters_ok[OF assms] obtain sn tf p1 v1 p2 v2 where kw:
    "kw ''StackName'' = Some (PyStr sn)" "kw ''TemplateFileName'' = Some (PyStr tf)"
    "kw ''S3KeyParameterName'' = Some (PyStr p1)" "kw ''S3Key'' = Some (PyStr v1)"
    "kw ''SMResourceParameterName'' = Some (PyStr p2)" "kw ''SMResource'' = Some (PyStr v2)"
    by blast
  from check_update_parameters_file[OF assms kw(2)] obtain body where
    body: "files e tf = Some body" ..
  have "create_change_set_request e kw s =
       (case kw ''Description'' of
          None \<Rightarrow> Inl (KeyError ''Description'')
        | Some d \<Rightarrow>
            Inr \<lparr>StackName = kw_get kw ''StackName'',
                 TemplateBody = body,
                 Parameters =
                   [\<lparr>ParameterKey = kw_get kw ''S3KeyParameterName'',
                     ParameterValue = kw_get kw ''S3Key'', UsePreviousValue = False\<rparr>,
                    \<lparr>ParameterKey = kw_get kw ''SMResourceParameterName'',
                     ParameterValue = kw_get kw ''SMResource'', UsePreviousValue = False\<rparr>],
                 Capabilities = [''CAPABILITY_IAM'', ''CAPABILITY_NAMED_IAM''],
                 Description = d,
                 ChangeSetName =
                   ''A'' @ filter (\<lambda>c. c \<noteq> CHR ''-'') (uuid4 e (uuids_drawn s)),
                 ChangeSetType = ''UPDATE''\<rparr>)"
    using kw body
    by (simp add: create_change_set_request_def kw_index_def kw_get_def bindE_def
        open_read_def change_set_name_def split: option.splits)
  with kw(2) body show ?thesis by blast
qed


subsection \<open>The template check\<close>




subsection \<open>Values that are not textual\<close>














section \<open>The claims\<close>

text \<open>
  C1. The check of \<open>update_stack\<close> between the first wait and the execution (the spec's
  \<open>validateTargetedChange\<close>). When the creation of the change set has not failed: if no
  proposed change has the logical id \<open>SMResource\<close> (in particular if there is no
  proposed change) the check raises the error that the change set does not modify the
  state machine and \<open>update_stack\<close> aborts, the creation of the change set being the
  only mutating call it has made; if some proposed change has that id the check
  passes and \<open>execute_change_set\<close> is the next call \<open>update_stack\<close> makes, before it
  waits again. When the creation has failed the creation error is raised instead,
  whatever the proposed changes are, and nothing is executed either.
\<close>

theorem scope_check:
  assumes "check_update_parameters e kw = Inr ()"
    and "create_change_set_request e kw s = Inr req"
    and "wait_for_change_set e (created_id e) (do_call (CreateChangeSet req) s) = Some (resp, s')"
  shows "(Status resp \<noteq> ''FAILED'' \<longrightarrow>
            validate_targeted_change (created_id e) resp kw =
              (if \<exists>chg \<in> set (Changes resp).
                    PyStr (LogicalResourceId chg) = kw_get kw ''SMResource''
               then Inr ()
               else Inl (does_not_modify (created_id e) (kw_get kw ''SMResource'')))) \<and>
         (Status resp \<noteq> ''FAILED'' \<and>
          \<not> (\<exists>chg \<in> set (Changes resp).
                PyStr (LogicalResourceId chg) = kw_get kw ''SMResource'') \<longrightarrow>
            update_stack e kw s =
              Some (Inl (does_not_modify (created_id e) (kw_get kw ''SMResource'')), s') \<and>
            filter mutating (calls s') = filter mutating (calls s) @ [CreateChangeSet req]) \<and>
         (Status resp \<noteq> ''FAILED'' \<and>
          (\<exists>chg \<in> set (Changes resp).
              PyStr (LogicalResourceId chg) = kw_get kw ''SMResource'') \<longrightarrow>
            update_stack e kw s =
              (case wait_for_change_set e (created_id e)
                      (s'\<lparr>calls := calls s' @ [ExecuteChangeSet (created_id e)]\<rparr>) of
                 None \<Rightarrow> None
               | Some (resp2, s2) \<Rightarrow> Some (final_status_check (created_id e) resp2, s2)) \<and>
            filter mutating (calls s' @ [ExecuteChangeSet (created_id e)]) =
              filter mutating (calls s) @
                [CreateChangeSet req, ExecuteChangeSet (created_id e)] \<and>
            (\<forall>r s2. update_stack e kw s = Some (r, s2) \<longrightarrow>
               filter mutating (calls s2) =
                 filter mutating (calls s) @
                   [CreateChangeSet req, ExecuteChangeSet (created_id e)])) \<and>
         (Status resp = ''FAILED'' \<longrightarrow>
            update_stack e kw s =
              Some (Inl (case StatusReason resp of
                           None \<Rightarrow> KeyError ''StatusReason''
                         | Some reason \<Rightarrow> creation_failed (created_id e) reason), s') \<and>
            filter mutating (calls s') = filter mutating (calls s) @ [CreateChangeSet req])"
proof -
  let ?id = "created_id e"
  let ?match = "\<exists>chg \<in> set (Changes resp).
      PyStr (LogicalResourceId chg) = kw_get kw ''SMResource''"
  from check_update_parameters_ok[OF assms(1)] obtain v where
    v: "kw ''SMResource'' = Some (PyStr v)" by blast
  have created: "filter mutating (calls s') = filter mutating (calls s) @ [CreateChangeSet req]"
    using wait_for_change_set_mutating[OF assms(3)] by (simp add: do_call_def)
  have run: "update_stack e kw s =
      (case validate_targeted_change ?id resp kw of
         Inl err \<Rightarrow> Some (Inl err, s')
       | Inr _ \<Rightarrow> execute_and_wait e ?id s')"
    using assms by (simp add: update_stack_def)
  have scope: "validate_targeted_change ?id resp kw =
      (if ?match then Inr () else Inl (does_not_modify ?id (kw_get kw ''SMResource'')))"
    if "Status resp \<noteq> ''FAILED''"
    using that v
    by (simp add: validate_targeted_change_def kw_index_def kw_get_def bindE_def
        found_required_change_iff)
  have 1: "Status resp \<noteq> ''FAILED'' \<longrightarrow>
      validate_targeted_change ?id resp kw =
        (if ?match then Inr () else Inl (does_not_modify ?id (kw_get kw ''SMResource'')))"
    using scope by blast
  have 2: "Status resp \<noteq> ''FAILED'' \<and> \<not> ?match \<longrightarrow>
      update_stack e kw s = Some (Inl (does_not_modify ?id (kw_get kw ''SMResource'')), s') \<and>
      filter mutating (calls s') = filter mutating (calls s) @ [CreateChangeSet req]"
    using scope run created by simp
  have 3: "Status resp \<noteq> ''FAILED'' \<and> ?match \<longrightarrow>
      update_stack e kw s =
        (case wait_for_change_set e ?id (s'\<lparr>calls := calls s' @ [ExecuteChangeSet ?id]\<rparr>) of
           None \<Rightarrow> None
         | Some (resp2, s2) \<Rightarrow> Some (final_status_check ?id resp2, s2)) \<and>
      filter mutating (calls s' @ [ExecuteChangeSet ?id]) =
        filter mutating (calls s) @ [CreateChangeSet req, ExecuteChangeSet ?id] \<and>
      (\<forall>r s2. update_stack e kw s = Some (r, s2) \<longrightarrow>
         filter mutating (calls s2) =
           filter mutating (calls s) @ [CreateChangeSet req, ExecuteChangeSet ?id])"
  proof (intro impI, elim conjE)
    assume ok: "Status resp \<noteq> ''FAILED''" and m: ?match
    let ?s = "s'\<lparr>calls := calls s' @ [ExecuteChangeSet ?id]\<rparr>"
    from scope[OF ok] m run have eq: "update_stack e kw s =
        (case wait_for_change_set e ?id ?s of
           None \<Rightarrow> None
         | Some (resp2, s2) \<Rightarrow> Some (final_status_check ?id resp2, s2))"
      by (simp add: execute_and_wait_def do_call_def)
    have executed: "filter mutating (calls s' @ [ExecuteChangeSet ?id]) =
        filter mutating (calls s) @ [CreateChangeSet req, ExecuteChangeSet ?id]"
      using created by simp
    have "filter mutating (calls s2) =
        filter mutating (calls s) @ [CreateChangeSet req, ExecuteChangeSet ?id]"
      if "update_stack e kw s = Some (r, s2)" for r s2
    proof -
      from that eq obtain resp2 where "wait_for_change_set e ?id ?s = Some (resp2, s2)"
        by (auto split: option.splits)
      from wait_for_change_set_mutating[OF this] executed show ?thesis by simp
    qed
    with eq executed show "update_stack e kw s =
        (case wait_for_change_set e ?id ?s of
           None \<Rightarrow> None
         | Some (resp2, s2) \<Rightarrow> Some (final_status_check ?id resp2, s2)) \<and>
      filter mutating (calls s' @ [ExecuteChangeSet ?id]) =
        filter mutating (calls s) @ [CreateChangeSet req, ExecuteChangeSet ?id] \<and>
      (\<forall>r s2. update_stack e kw s = Some (r, s2) \<longrightarrow>
         filter mutating (calls s2) =
           filter mutating (calls s) @ [CreateChangeSet req, ExecuteChangeSet ?id])"
      by blast
  qed
  have 4: "Status resp = ''FAILED'' \<longrightarrow>
      update_stack e kw s =
        Some (Inl (case StatusReason resp of
                     None \<Rightarrow> KeyError ''StatusReason''
                   | Some reason \<Rightarrow> creation_failed ?id reason), s') \<and>
      filter mutating (calls s') = filter mutating (calls s) @ [CreateChangeSet req]"
    using run created
    by (simp add: validate_targeted_change_def status_reason_def bindE_def
        split: option.splits)
  from 1 2 3 4 show ?thesis by blast
qed

theorem scope_check_witness:
  "check_update_parameters unchanged_env demo_update_kwargs = Inr () \<and>
   create_change_set_request unchanged_env demo_update_kwargs start = Inr demo_request \<and>
   wait_for_change_set unchanged_env ''cs-1'' (do_call (CreateChangeSet demo_request) start) =
     Some (unchanged, \<lparr>calls = [CreateChangeSet demo_request, DescribeChangeSet ''cs-1''],
                       polls = 1\<rparr>) \<and>
   Status unchanged \<noteq> ''FAILED'' \<and>
   Changes unchanged = [] \<and>
   update_stack unchanged_env demo_update_kwargs start =
     Some (Inl (does_not_modify ''cs-1'' (PyStr ''MyStateMachine'')),
           \<lparr>calls = [CreateChangeSet demo_request, DescribeChangeSet ''cs-1''], polls = 1\<rparr>) \<and>
   check_update_parameters slow_env demo_update_kwargs = Inr () \<and>
   create_change_set_request slow_env demo_update_kwargs start = Inr demo_request \<and>
   wait_for_change_set slow_env ''cs-1'' (do_call (CreateChangeSet demo_request) start) =
     Some (complete,
           \<lparr>calls = [CreateChangeSet demo_request, DescribeChangeSet ''cs-1'',
                     Sleep 2, DescribeChangeSet ''cs-1'', Sleep 4, DescribeChangeSet ''cs-1'',
                     Sleep 8, DescribeChangeSet ''cs-1''],
            polls = 4\<rparr>) \<and>
   Status complete \<noteq> ''FAILED'' \<and>
   LogicalResourceId (Changes complete ! 1) = ''MyStateMachine'' \<and>
   update_stack slow_env demo_update_kwargs start =
     Some (Inr (),
           \<lparr>calls = [CreateChangeSet demo_request, DescribeChangeSet ''cs-1'',
                     Sleep 2, DescribeChangeSet ''cs-1'', Sleep 4, DescribeChangeSet ''cs-1'',
                     Sleep 8, DescribeChangeSet ''cs-1'',
                     ExecuteChangeSet ''cs-1'', DescribeChangeSet ''cs-1''],
            polls = 5\<rparr>) \<and>
   filter mutating
     [CreateChangeSet demo_request, DescribeChangeSet ''cs-1'',
      Sleep 2, DescribeChangeSet ''cs-1'', Sleep 4, DescribeChangeSet ''cs-1'',
      Sleep 8, DescribeChangeSet ''cs-1'',
      ExecuteChangeSet ''cs-1'', DescribeChangeSet ''cs-1''] =
     [CreateChangeSet demo_request, ExecuteChangeSet ''cs-1'']"
proof -
  have a1: "check_update_parameters unchanged_env demo_update_kwargs = Inr ()"
    by code_simp
  have a2: "create_change_set_request unchanged_env demo_update_kwargs start = Inr demo_request"
    by code_simp
  have a3: "wait_for_change_set unchanged_env (created_id unchanged_env)
             (do_call (CreateChangeSet demo_request) start) =
     Some (unchanged, \<lparr>calls = [CreateChangeSet demo_request, DescribeChangeSet ''cs-1''],
                       polls = 1\<rparr>)"
    by code_simp
  have a4: "Status unchanged \<noteq> ''FAILED''" "Changes unchanged = []"
    "created_id unchanged_env = ''cs-1''"
    "kw_get demo_update_kwargs ''SMResource'' = PyStr ''MyStateMachine''"
    by code_simp+
  have b1: "check_update_parameters slow_env demo_update_kwargs = Inr ()"
    by code_simp
  have b2: "create_change_set_request slow_env demo_update_kwargs start = Inr demo_request"
    by code_simp
  have b3: "wait_for_change_set slow_env (created_id slow_env)
             (do_call (CreateChangeSet demo_request) start) =
     Some (complete,
           \<lparr>calls = [CreateChangeSet demo_request, DescribeChangeSet ''cs-1'',
                     Sleep 2, DescribeChangeSet ''cs-1'', Sleep 4, DescribeChangeSet ''cs-1'',
                     Sleep 8, DescribeChangeSet ''cs-1''],
            polls = 4\<rparr>)"
    by code_simp
  have b4: "Status complete \<noteq> ''FAILED''"
    "LogicalResourceId (Changes complete ! 1) = ''MyStateMachine''"
    "created_id slow_env = ''cs-1''"
    "\<exists>chg \<in> set (Changes complete).
        PyStr (LogicalResourceId chg) = kw_get demo_update_kwargs ''SMResource''"
    by code_simp+
  have b5: "update_stack slow_env demo_update_kwargs start =
     Some (Inr (),
           \<lparr>calls = [CreateChangeSet demo_request, DescribeChangeSet ''cs-1'',
                     Sleep 2, DescribeChangeSet ''cs-1'', Sleep 4, DescribeChangeSet ''cs-1'',
                     Sleep 8, DescribeChangeSet ''cs-1'',
                     ExecuteChangeSet ''cs-1'', DescribeChangeSet ''cs-1''],
            polls = 5\<rparr>)"
    by code_simp
  from scope_check[OF a1 a2 a3] a4
  have abort: "update_stack unchanged_env demo_update_kwargs start =
     Some (Inl (does_not_modify ''cs-1'' (PyStr ''MyStateMachine'')),
           \<lparr>calls = [CreateChangeSet demo_request, DescribeChangeSet ''cs-1''], polls = 1\<rparr>)"
    by simp
  from scope_check[OF b1 b2 b3] b4 b5
  have "filter mutating
     [CreateChangeSet demo_request, DescribeChangeSet ''cs-1'',
      Sleep 2, DescribeChangeSet ''cs-1'', Sleep 4, DescribeChangeSet ''cs-1'',
      Sleep 8, DescribeChangeSet ''cs-1'',
      ExecuteChangeSet ''cs-1'', DescribeChangeSet ''cs-1''] =
     [CreateChangeSet demo_request, ExecuteChangeSet ''cs-1'']"
    by (simp add: start_def)
  with abort a1 a2 a3 a4 b1 b2 b3 b4 b5 show ?thesis
    by simp
qed

text \<open>The run that refutes C1 as it is stated: the creation of the change set has failed and
  there is no proposed change, and the error is the one of the failed creation.\<close>

theorem scope_check_counterexample:
  "Status failed = ''FAILED'' \<and> Changes failed = [] \<and>
   update_stack rejected_env demo_update_kwargs start =
     Some (Inl (creation_failed ''cs-1'' ''no permission''),
           \<lparr>calls = [CreateChangeSet demo_request, DescribeChangeSet ''cs-1''], polls = 1\<rparr>) \<and>
   creation_failed ''cs-1'' ''no permission'' \<noteq>
     does_not_modify ''cs-1'' (PyStr ''MyStateMachine'')"
  by code_simp

text \<open>
  C2. When the target stack is not in the listing of the stacks ready for update, the
  deployment aborts with the error of \<open>check_stack_exists_and_updatable\<close>. That check is
  part of \<open>update_stack\<close>, which \<open>update_workflow\<close> calls after \<open>save_workflow_to_s3\<close>:
  so either the publishing itself raises, and nothing has been written, or the object
  has been put once when the deployment aborts, and no change set has been created.
  The claim that nothing is written before the abort fails on a deployment whose
  publishing succeeds.
\<close>

theorem stack_absent_aborts_after_publish:
  assumes "kw ''StackName'' = Some (PyStr name)"
    and "\<not> (\<exists>page \<in> set (stack_pages e). \<exists>stack \<in> set page.
             SummaryStackName stack = name \<and>
             SummaryStackStatus stack \<in> {''CREATE_COMPLETE'', ''UPDATE_COMPLETE''})"
  shows "(\<exists>err. save_workflow_to_s3 e (save_kwargs kw) s = (Inl err, s) \<and>
            update_workflow e kw s = Some (Inl err, s)) \<or>
         (\<exists>req. save_workflow_to_s3 e (save_kwargs kw) s = (Inr (), do_call (PutObject req) s) \<and>
            update_workflow e kw s =
              Some (Inl (stack_not_ready name), do_call (PutObject req) s))"
proof -
  from assms(2) have absent:
    "check_stack_exists_and_updatable e ''StackName'' name = Inl (stack_not_ready name)"
    by (rule stack_check_absent)
  from save_workflow_to_s3_cases[of e "save_kwargs kw" s] show ?thesis
  proof
    assume "\<exists>err. save_workflow_to_s3 e (save_kwargs kw) s = (Inl err, s)"
    then show ?thesis by (auto simp: update_workflow_def)
  next
    assume "\<exists>b k f body. save_kwargs kw ''Bucket'' = Some (PyStr b) \<and>
      save_kwargs kw ''Key'' = Some (PyStr k) \<and>
      save_kwargs kw ''SourceFileName'' = Some (PyStr f) \<and> files e f = Some body \<and>
      save_workflow_to_s3 e (save_kwargs kw) s =
        (Inr (), do_call (PutObject \<lparr>Bucket = PyStr b, Key = PyStr k, Body = body,
                    ContentType = ''application/json'', StorageClass = ''STANDARD''\<rparr>) s)"
    then obtain b k req where
      b: "save_kwargs kw ''Bucket'' = Some (PyStr b)" and
      k: "save_kwargs kw ''Key'' = Some (PyStr k)" and
      saved: "save_workflow_to_s3 e (save_kwargs kw) s = (Inr (), do_call (PutObject req) s)"
      by blast
    from b k have loc: "s3_location kw = Inr (PyStr (''s3://'' @ b @ ''/'' @ k))"
      by (simp add: save_kwargs_apply s3_location_def kw_index_def bindE_def)
    let ?kw = "update_kwargs kw (PyStr (''s3://'' @ b @ ''/'' @ k))"
    have "?kw ''StackName'' = Some (PyStr name)"
      using assms(1) by (simp add: update_kwargs_apply)
    from check_update_parameters_stack[of ?kw name e, OF this absent]
    have "update_stack e ?kw (do_call (PutObject req) s) =
        Some (Inl (stack_not_ready name), do_call (PutObject req) s)"
      by (simp add: update_stack_def)
    with saved loc have "update_workflow e kw s =
        Some (Inl (stack_not_ready name), do_call (PutObject req) s)"
      by (simp add: update_workflow_def)
    with saved show ?thesis by blast
  qed
qed

theorem stack_absent_aborts_after_publish_witness:
  "demo_kwargs ''StackName'' = Some (PyStr ''sm-stack'') \<and>
   stack_pages (demo_env\<lparr>stack_pages := []\<rparr>) = [] \<and>
   update_workflow (demo_env\<lparr>stack_pages := []\<rparr>) demo_kwargs start =
     Some (Inl (stack_not_ready ''sm-stack''),
           do_call (PutObject \<lparr>Bucket = PyStr ''workflows'', Key = PyStr ''hello.json'',
                       Body = ''workflow'', ContentType = ''application/json'',
                       StorageClass = ''STANDARD''\<rparr>) start)"
  using stack_absent_aborts_after_publish
    [of demo_kwargs "''sm-stack''" "demo_env\<lparr>stack_pages := []\<rparr>" start]
  by (simp add: model_defs demo_defs stack_loop.simps)

text \<open>The run that refutes C2 as it is stated: the stack is on no page, and the object has
  been put when the deployment aborts.\<close>

theorem stack_absent_counterexample:
  "\<not> list_ex (list_ex (\<lambda>stack. SummaryStackName stack = ''sm-stack''))
       (stack_pages (demo_env\<lparr>stack_pages := [[\<lparr>SummaryStackName = ''macro'',
           SummaryStackStatus = ''CREATE_COMPLETE''\<rparr>]]\<rparr>)) \<and>
   update_workflow
     (demo_env\<lparr>stack_pages := [[\<lparr>SummaryStackName = ''macro'',
         SummaryStackStatus = ''CREATE_COMPLETE''\<rparr>]]\<rparr>) demo_kwargs start =
     Some (Inl (stack_not_ready ''sm-stack''),
           \<lparr>calls = [PutObject \<lparr>Bucket = PyStr ''workflows'', Key = PyStr ''hello.json'',
                       Body = ''workflow'', ContentType = ''application/json'',
                       StorageClass = ''STANDARD''\<rparr>],
            polls = 0\<rparr>)"
  by (simp add: model_defs demo_defs stack_loop.simps)

text \<open>
  C3. A successful \<open>save_workflow_to_s3\<close> puts the content of the source file at the
  given key with content type \<open>application/json\<close>. The storage class of the call is
  not the caller's: with \<open>S3StorageClass = STANDARD_IA\<close>, which the checks accept, the
  object is put with storage class \<open>STANDARD\<close>.
\<close>

theorem save_workflow_to_s3_storage_class:
  "kw_get (save_kwargs demo_kwargs) ''S3StorageClass'' = PyStr ''STANDARD_IA'' \<and>
   check_save_parameters demo_env (save_kwargs demo_kwargs) = Inr () \<and>
   save_workflow_to_s3 demo_env (save_kwargs demo_kwargs) start =
     (Inr (),
      \<lparr>calls = [PutObject \<lparr>Bucket = PyStr ''workflows'', Key = PyStr ''hello.json'',
                  Body = ''workflow'', ContentType = ''application/json'',
                  StorageClass = ''STANDARD''\<rparr>],
       polls = 0\<rparr>)"
  by (simp add: model_defs demo_defs)




text \<open>
  C5. In \<open>wait_for_change_set\<close> the sleeps between the polls are 2, 4, 8, ... seconds,
  each twice the one before, and the polling stops at the first answer whose status is
  \<open>CREATE_COMPLETE\<close> or \<open>FAILED\<close>: if the first \<open>k\<close> answers are not terminal and the
  next one is, the function returns that answer, after \<open>k\<close> sleeps of \<open>2 * 2 ^ i\<close>
  seconds, each followed by one poll.
\<close>

theorem wait_for_change_set_doubles:
  assumes "\<forall>i<k. Status (descriptions e (polls s + i)) \<notin> {''CREATE_COMPLETE'', ''FAILED''}"
    and "Status (descriptions e (polls s + k)) \<in> {''CREATE_COMPLETE'', ''FAILED''}"
  shows "wait_for_change_set e cid s =
     Some (descriptions e (polls s + k),
           \<lparr>calls = calls s @ DescribeChangeSet cid #
                concat (map (\<lambda>i. [Sleep (2 * 2 ^ i), DescribeChangeSet cid]) [0..<k]),
            polls = polls s + k + 1\<rparr>)"
  using wait_loop_first_terminal[of k e "do_call (DescribeChangeSet cid) s" cid 2] assms
  by (simp add: wait_for_change_set_def describe_change_set_def do_call_def poll_calls_concat)

theorem wait_for_change_set_doubles_witness:
  "Status (descriptions slow_env 0) \<notin> {''CREATE_COMPLETE'', ''FAILED''} \<and>
   Status (descriptions slow_env 1) \<notin> {''CREATE_COMPLETE'', ''FAILED''} \<and>
   Status (descriptions slow_env 2) \<notin> {''CREATE_COMPLETE'', ''FAILED''} \<and>
   Status (descriptions slow_env 3) \<in> {''CREATE_COMPLETE'', ''FAILED''} \<and>
   wait_for_change_set slow_env ''cs-1'' start =
     Some (complete,
           \<lparr>calls = [DescribeChangeSet ''cs-1'',
                     Sleep 2, DescribeChangeSet ''cs-1'',
                     Sleep 4, DescribeChangeSet ''cs-1'',
                     Sleep 8, DescribeChangeSet ''cs-1''],
            polls = 4\<rparr>)"
  using wait_for_change_set_doubles[of 3 slow_env start "''cs-1''"]
  by (simp add: demo_defs upt_rec)

text \<open>
  C6. \<open>check_stack_exists_and_updatable\<close> goes through every page of the listing of
  the stacks in status \<open>CREATE_COMPLETE\<close> or \<open>UPDATE_COMPLETE\<close>: it succeeds if the target
  stack is on any page, the first or a later one, and raises the error that the stack
  does not exist or is not ready for update if it is on none.
\<close>

theorem check_stack_exhaustive:
  "check_stack_exists_and_updatable e param_name v =
     (if \<exists>page \<in> set (stack_pages e). \<exists>stack \<in> set page.
           SummaryStackName stack = v \<and>
           SummaryStackStatus stack \<in> {''CREATE_COMPLETE'', ''UPDATE_COMPLETE''}
      then Inr () else Inl (stack_not_ready v))"
proof -
  have "stack_loop e v None =
      (if \<exists>j. listed e v j then Inr () else Inl (stack_not_ready v))"
    by (simp add: stack_loop_from)
  then show ?thesis
    by (simp only: check_stack_exists_and_updatable_def listed_iff)
qed

theorem check_stack_exhaustive_witness:
  "check_stack_exists_and_updatable demo_env ''StackName'' ''sm-stack'' = Inr () \<and>
   check_stack_exists_and_updatable demo_env ''StackName'' ''other'' =
     Inl (stack_not_ready ''other'')"
  using check_stack_exhaustive[of demo_env "''StackName''" "''sm-stack''"]
    check_stack_exhaustive[of demo_env "''StackName''" "''other''"]
  by (simp add: demo_defs)




text \<open>
  C8. After the wait that follows \<open>execute_change_set\<close>, \<open>update_stack\<close> raises the
  execution error with the platform's reason if the status is \<open>FAILED\<close>, raises the
  execution-status error if the execution status is not \<open>AVAILABLE\<close>, and returns
  normally exactly when the status is not \<open>FAILED\<close> and the execution status is
  \<open>AVAILABLE\<close>. (A \<open>FAILED\<close> answer that carries no reason makes the lookup of the
  reason raise a \<open>KeyError\<close>.)
\<close>

theorem final_status:
  assumes "check_update_parameters e kw = Inr ()"
    and "create_change_set_request e kw s = Inr req"
    and "wait_for_change_set e (created_id e) (do_call (CreateChangeSet req) s) =
           Some (resp1, s1)"
    and "validate_targeted_change (created_id e) resp1 kw = Inr ()"
    and "wait_for_change_set e (created_id e) (do_call (ExecuteChangeSet (created_id e)) s1) =
           Some (resp, s2)"
  shows "update_stack e kw s =
           Some (if Status resp = ''FAILED''
                 then (case StatusReason resp of
                         None \<Rightarrow> Inl (KeyError ''StatusReason'')
                       | Some reason \<Rightarrow> Inl (execution_failed (created_id e) reason))
                 else if ExecutionStatus resp \<noteq> ''AVAILABLE''
                 then Inl (execution_status_is (created_id e) (ExecutionStatus resp))
                 else Inr (),
                 s2) \<and>
         (update_stack e kw s = Some (Inr (), s2) \<longleftrightarrow>
            Status resp \<noteq> ''FAILED'' \<and> ExecutionStatus resp = ''AVAILABLE'')"
proof -
  have run: "update_stack e kw s = Some (final_status_check (created_id e) resp, s2)"
    using assms by (simp add: update_stack_def execute_and_wait_def)
  have check: "final_status_check (created_id e) resp =
      (if Status resp = ''FAILED''
       then (case StatusReason resp of
               None \<Rightarrow> Inl (KeyError ''StatusReason'')
             | Some reason \<Rightarrow> Inl (execution_failed (created_id e) reason))
       else if ExecutionStatus resp \<noteq> ''AVAILABLE''
       then Inl (execution_status_is (created_id e) (ExecutionStatus resp))
       else Inr ())"
    by (simp add: final_status_check_def status_reason_def bindE_def split: option.splits)
  have "final_status_check (created_id e) resp = Inr () \<longleftrightarrow>
      Status resp \<noteq> ''FAILED'' \<and> ExecutionStatus resp = ''AVAILABLE''"
    unfolding check by (simp split: option.splits)
  with run check show ?thesis by simp
qed

theorem final_status_witness:
  "check_update_parameters failing_env demo_update_kwargs = Inr () \<and>
   create_change_set_request failing_env demo_update_kwargs start = Inr demo_request \<and>
   wait_for_change_set failing_env ''cs-1'' (do_call (CreateChangeSet demo_request) start) =
     Some (complete, \<lparr>calls = [CreateChangeSet demo_request, DescribeChangeSet ''cs-1''],
                      polls = 1\<rparr>) \<and>
   validate_targeted_change ''cs-1'' complete demo_update_kwargs = Inr () \<and>
   wait_for_change_set failing_env ''cs-1''
     (do_call (ExecuteChangeSet ''cs-1'')
        \<lparr>calls = [CreateChangeSet demo_request, DescribeChangeSet ''cs-1''], polls = 1\<rparr>) =
     Some (failed,
           \<lparr>calls = [CreateChangeSet demo_request, DescribeChangeSet ''cs-1'',
                     ExecuteChangeSet ''cs-1'', DescribeChangeSet ''cs-1''],
            polls = 2\<rparr>) \<and>
   update_stack failing_env demo_update_kwargs start =
     Some (Inl (execution_failed ''cs-1'' ''no permission''),
           \<lparr>calls = [CreateChangeSet demo_request, DescribeChangeSet ''cs-1'',
                     ExecuteChangeSet ''cs-1'', DescribeChangeSet ''cs-1''],
            polls = 2\<rparr>)"
proof -
  have id: "created_id failing_env = ''cs-1''"
    by code_simp
  have 1: "check_update_parameters failing_env demo_update_kwargs = Inr ()"
    by code_simp
  have 2: "create_change_set_request failing_env demo_update_kwargs start = Inr demo_request"
    by code_simp
  have 3: "wait_for_change_set failing_env (created_id failing_env)
      (do_call (CreateChangeSet demo_request) start) =
     Some (complete, \<lparr>calls = [CreateChangeSet demo_request, DescribeChangeSet ''cs-1''],
                      polls = 1\<rparr>)"
    by code_simp
  have 4: "validate_targeted_change (created_id failing_env) complete demo_update_kwargs =
      Inr ()"
    by code_simp
  have 5: "wait_for_change_set failing_env (created_id failing_env)
     (do_call (ExecuteChangeSet (created_id failing_env))
        \<lparr>calls = [CreateChangeSet demo_request, DescribeChangeSet ''cs-1''], polls = 1\<rparr>) =
     Some (failed,
           \<lparr>calls = [CreateChangeSet demo_request, DescribeChangeSet ''cs-1'',
                     ExecuteChangeSet ''cs-1'', DescribeChangeSet ''cs-1''],
            polls = 2\<rparr>)"
    by code_simp
  have 6: "Status failed = ''FAILED''" "StatusReason failed = Some ''no permission''"
    by code_simp+
  from final_status[OF 1 2 3 4 5] 1 2 3 4 5 show ?thesis
    by (simp add: id 6)
qed



text \<open>
  C10. The checks of \<open>update_stack\<close> look at six arguments only (\<open>StackName\<close>,
  \<open>TemplateFileName\<close>, \<open>S3KeyParameterName\<close>, \<open>S3Key\<close>, \<open>SMResourceParameterName\<close>,
  \<open>SMResource\<close>), each of which must be textual; \<open>Description\<close> is not among them. When
  \<open>Description\<close> is missing and the six checks pass, \<open>update_stack\<close> raises
  \<open>KeyError('Description')\<close> while it builds the arguments of \<open>create_change_set\<close>, after
  the checks of the stack and the template; in a deployment the object has been put
  by then.
\<close>

theorem description_not_checked:
  "check_update_parameters e
     (kw |` set [''StackName'', ''TemplateFileName'', ''S3KeyParameterName'', ''S3Key'',
                 ''SMResourceParameterName'', ''SMResource'']) =
     check_update_parameters e kw \<and>
   (check_update_parameters e kw = Inr () \<longrightarrow>
      (\<forall>p \<in> set [''StackName'', ''TemplateFileName'', ''S3KeyParameterName'', ''S3Key'',
                  ''SMResourceParameterName'', ''SMResource'']. \<exists>x. kw p = Some (PyStr x))) \<and>
   (check_update_parameters e kw = Inr () \<and> kw ''Description'' = None \<longrightarrow>
      update_stack e kw s = Some (Inl (KeyError ''Description''), s)) \<and>
   (save_workflow_to_s3 e (save_kwargs kw) s = (Inr (), s1) \<and> s3_location kw = Inr loc \<and>
    check_update_parameters e (update_kwargs kw loc) = Inr () \<and> kw ''Description'' = None \<longrightarrow>
      update_workflow e kw s = Some (Inl (KeyError ''Description''), s1) \<and>
      (\<exists>req. s1 = do_call (PutObject req) s))"
proof -
  let ?six = "set [''StackName'', ''TemplateFileName'', ''S3KeyParameterName'', ''S3Key'',
                   ''SMResourceParameterName'', ''SMResource'']"
  have "check_template_params_exist e (kw |` ?six) = check_template_params_exist e kw"
    by (intro ext) (simp add: check_template_params_exist_def kw_index_def restrict_map_def)
  then have 1: "check_update_parameters e (kw |` ?six) = check_update_parameters e kw"
    by (simp add: check_update_parameters_def kw_get_def restrict_map_def)
  have 2: "check_update_parameters e kw = Inr () \<longrightarrow>
      (\<forall>p \<in> ?six. \<exists>x. kw p = Some (PyStr x))"
  proof
    assume "check_update_parameters e kw = Inr ()"
    from check_update_parameters_ok[OF this] show "\<forall>p \<in> ?six. \<exists>x. kw p = Some (PyStr x)"
      by auto
  qed
  have missing: "update_stack e kw' s' = Some (Inl (KeyError ''Description''), s')"
    if "check_update_parameters e kw' = Inr ()" "kw' ''Description'' = None" for kw' s'
  proof -
    from create_change_set_request_checked[OF that(1), of s'] that(2)
    have "create_change_set_request e kw' s' = Inl (KeyError ''Description'')"
      by auto
    with that(1) show ?thesis by (simp add: update_stack_def)
  qed
  have 3: "check_update_parameters e kw = Inr () \<and> kw ''Description'' = None \<longrightarrow>
      update_stack e kw s = Some (Inl (KeyError ''Description''), s)"
    using missing by blast
  have 4: "save_workflow_to_s3 e (save_kwargs kw) s = (Inr (), s1) \<and> s3_location kw = Inr loc \<and>
    check_update_parameters e (update_kwargs kw loc) = Inr () \<and> kw ''Description'' = None \<longrightarrow>
      update_workflow e kw s = Some (Inl (KeyError ''Description''), s1) \<and>
      (\<exists>req. s1 = do_call (PutObject req) s)"
  proof (intro impI, elim conjE)
    assume saved: "save_workflow_to_s3 e (save_kwargs kw) s = (Inr (), s1)"
      and loc: "s3_location kw = Inr loc"
      and checked: "check_update_parameters e (update_kwargs kw loc) = Inr ()"
      and none: "kw ''Description'' = None"
    from none have "update_kwargs kw loc ''Description'' = None"
      by (simp add: update_kwargs_apply)
    from missing[OF checked this, of s1] saved loc
    have run: "update_workflow e kw s = Some (Inl (KeyError ''Description''), s1)"
      by (simp add: update_workflow_def)
    from save_workflow_to_s3_cases[of e "save_kwargs kw" s] saved
    have "\<exists>req. s1 = do_call (PutObject req) s"
      by auto
    with run show "update_workflow e kw s = Some (Inl (KeyError ''Description''), s1) \<and>
      (\<exists>req. s1 = do_call (PutObject req) s)" ..
  qed
  from 1 2 3 4 show ?thesis by blast
qed

theorem description_not_checked_witness:
  "(demo_kwargs(''Description'' := None)) ''Description'' = None \<and>
   check_update_parameters demo_env
     (update_kwargs (demo_kwargs(''Description'' := None))
        (PyStr ''s3://workflows/hello.json'')) = Inr () \<and>
   update_workflow demo_env (demo_kwargs(''Description'' := None)) start =
     Some (Inl (KeyError ''Description''),
           \<lparr>calls = [PutObject \<lparr>Bucket = PyStr ''workflows'', Key = PyStr ''hello.json'',
                       Body = ''workflow'', ContentType = ''application/json'',
                       StorageClass = ''STANDARD''\<rparr>],
            polls = 0\<rparr>)"
proof -
  let ?kw = "demo_kwargs(''Description'' := None)"
  let ?s1 = "\<lparr>calls = [PutObject \<lparr>Bucket = PyStr ''workflows'', Key = PyStr ''hello.json'',
                       Body = ''workflow'', ContentType = ''application/json'',
                       StorageClass = ''STANDARD''\<rparr>],
            polls = 0\<rparr>"
  have 1: "save_workflow_to_s3 demo_env (save_kwargs ?kw) start = (Inr (), ?s1)"
    by (simp add: model_defs demo_defs)
  have 2: "s3_location ?kw = Inr (PyStr ''s3://workflows/hello.json'')"
    by (simp add: model_defs demo_defs)
  have 3: "check_update_parameters demo_env
      (update_kwargs ?kw (PyStr ''s3://workflows/hello.json'')) = Inr ()"
    by (simp add: model_defs demo_defs stack_loop.simps)
  have 4: "?kw ''Description'' = None"
    by simp
  from description_not_checked
    [of demo_env ?kw start ?s1 "PyStr ''s3://workflows/hello.json''"] 1 2 3 4
  show ?thesis by simp
qed

end
